theory Spec2Isabelle
  imports Main
begin

section \<open>Shared vocabulary\<close>

text \<open>
  A JavaScript \<^verbatim>\<open>Error\<close> object, reduced to its message. A call that may throw (or an
  awaited promise that may reject) yields a completion: the value it returned, or the
  error it threw.
\<close>

datatype error = Error (message: string)

datatype 'a completion = Returned 'a | Threw error

section \<open>Launch configuration reconciler: \<^verbatim>\<open>addInitialLaunchConfiguration\<close>\<close>

text \<open>
  The invoke target of a debug configuration is a variant: the template-typed target
  carries \<^verbatim>\<open>templatePath\<close> and \<^verbatim>\<open>logicalId\<close>, the code-typed one a handler and a
  project root.
\<close>

datatype invoke_target =
    TemplateTarget string string
  | CodeTarget string string

text \<open>
  Modelled from the spec: \<^verbatim>\<open>isTemplateTargetProperties\<close>, the type guard of
  \<^verbatim>\<open>awsSamDebugConfiguration.ts\<close>, is not among the sources. It tells the
  template-typed variant from the others.
\<close>

fun isTemplateTargetProperties :: "invoke_target \<Rightarrow> bool" where
  "isTemplateTargetProperties (TemplateTarget p l) = True"
| "isTemplateTargetProperties (CodeTarget h r) = False"

text \<open>
  The nested runtime holder: the \<^verbatim>\<open>lambda\<close> object of a configuration. Only its
  \<^verbatim>\<open>runtime\<close> property is written by the reconciler; whatever else it holds is kept in
  \<open>otherProperties\<close>. The object literal \<^verbatim>\<open>{}\<close> has no property at all.
\<close>

record lambda_properties =
  runtime :: "string option"
  otherProperties :: "(string \<times> string) list"

definition emptyObject :: lambda_properties where
  "emptyObject = \<lparr>runtime = None, otherProperties = []\<rparr>"

record debug_configuration =
  configType :: string
  name :: string
  request :: string
  invokeTarget :: invoke_target
  lambda :: "lambda_properties option"

text \<open>
  Configurations are objects: the array handed out by the provider, the filtered array
  and the array handed to the launch configuration store all refer to the same objects.
  So a configuration is an address into a heap of objects, and an array is a list of
  addresses. The launch configuration store is seen through the calls it receives: every
  call of \<^verbatim>\<open>addDebugConfigurations\<close> is recorded with the configurations it was handed,
  as they were at the time of the call.
\<close>

type_synonym addr = nat

record launch_world =
  heap :: "addr \<Rightarrow> debug_configuration"
  addCalls :: "debug_configuration list list"

text \<open>
  The filter predicate of the source:
  \<^verbatim>\<open>isTemplateTargetProperties(config.invokeTarget) && pathutils.areEqual(folder.uri.fsPath,
  config.invokeTarget.templatePath, targetUri.fsPath)\<close>.
  \<^verbatim>\<open>pathutils.areEqual\<close> is not among the sources and is a parameter throughout.
\<close>

definition targetsTemplate ::
  "(string \<Rightarrow> string \<Rightarrow> string \<Rightarrow> bool) \<Rightarrow> string \<Rightarrow> string \<Rightarrow> debug_configuration \<Rightarrow> bool" where
  "targetsTemplate areEqual folderFsPath targetFsPath config =
     (isTemplateTargetProperties (invokeTarget config) \<and>
      (case invokeTarget config of
         TemplateTarget templatePath l \<Rightarrow> areEqual folderFsPath templatePath targetFsPath
       | CodeTarget h r \<Rightarrow> False))"

text \<open>
  The body of the \<^verbatim>\<open>forEach\<close> callback:
  \<^verbatim>\<open>if (!configuration.lambda) { configuration.lambda = {} }
  configuration.lambda.runtime = runtime\<close>.
\<close>

definition stampRuntime :: "string \<Rightarrow> debug_configuration \<Rightarrow> debug_configuration" where
  "stampRuntime rt configuration =
     (let holder = (case lambda configuration of None \<Rightarrow> emptyObject | Some l \<Rightarrow> l)
      in configuration\<lparr>lambda := Some (holder\<lparr>runtime := Some rt\<rparr>)\<rparr>)"

definition forEachStampRuntime ::
  "string \<Rightarrow> addr list \<Rightarrow> (addr \<Rightarrow> debug_configuration) \<Rightarrow> (addr \<Rightarrow> debug_configuration)" where
  "forEachStampRuntime rt filtered h = fold (\<lambda>a h'. h'(a := stampRuntime rt (h' a))) filtered h"

text \<open>
  \<^verbatim>\<open>addInitialLaunchConfiguration\<close>. The parameters stand for the collaborators:
  \<open>provided\<close> is what \<^verbatim>\<open>provideDebugConfigurations(folder)\<close> completed with (an array of
  configurations, \<^verbatim>\<open>undefined\<close>, or an error), \<open>addDebugConfigurations\<close> tells whether
  the store's call fails on the list it is handed. The result is the completion of the
  function together with the world it leaves behind.
\<close>

definition addInitialLaunchConfiguration ::
  "(string \<Rightarrow> string \<Rightarrow> string \<Rightarrow> bool) \<Rightarrow> addr list option completion \<Rightarrow>
   (debug_configuration list \<Rightarrow> error option) \<Rightarrow> string \<Rightarrow> string \<Rightarrow> string option \<Rightarrow>
   launch_world \<Rightarrow> addr list option completion \<times> launch_world" where
  "addInitialLaunchConfiguration areEqual provided addDebugConfigurations folderFsPath targetFsPath
       runtimeArg w =
     (case provided of
        Threw e \<Rightarrow> (Threw e, w)
      | Returned None \<Rightarrow> (Returned None, w)
      | Returned (Some configurations) \<Rightarrow>
          (let filtered =
                 filter (\<lambda>a. targetsTemplate areEqual folderFsPath targetFsPath (heap w a))
                   configurations;
               h = (case runtimeArg of
                      None \<Rightarrow> heap w
                    | Some rt \<Rightarrow> forEachStampRuntime rt filtered (heap w));
               w' = w\<lparr>heap := h, addCalls := addCalls w @ [map h filtered]\<rparr>
           in (case addDebugConfigurations (map h filtered) of
                 Some e \<Rightarrow> (Threw e, w')
               | None \<Rightarrow> (Returned (Some filtered), w'))))"

section \<open>AWS client builder: \<^verbatim>\<open>DefaultAWSClientBuilder.createAndConfigureServiceClient\<close>\<close>

text \<open>
  The fields of \<^verbatim>\<open>ServiceConfigurationOptions\<close> the builder reads or writes. Credentials
  are opaque. A string is a list of code units below 256.
\<close>

record 'c service_configuration_options =
  credentials :: "'c option"
  region :: "string option"
  customUserAgent :: "string option"
  endpoint :: "string option"

definition emptyOptions :: "'c service_configuration_options" where
  "emptyOptions = \<lparr>credentials = None, region = None, customUserAgent = None, endpoint = None\<rparr>"

text \<open>
  What the builder reads from its surroundings: \<^verbatim>\<open>env.appName\<close> and \<^verbatim>\<open>version\<close> of the
  editor, \<^verbatim>\<open>pluginVersion\<close> of the extension, and the \<^verbatim>\<open>endpoint\<close> entry of the
  \<^verbatim>\<open>aws\<close> settings section.
\<close>

record client_environment =
  appName :: string
  editorVersion :: string
  pluginVersion :: string
  endpointSetting :: "string option"

text \<open>
  Truthiness of a value of type \<^verbatim>\<open>string | undefined\<close>: \<^verbatim>\<open>undefined\<close> and the empty
  string are falsy.
\<close>

fun truthy :: "string option \<Rightarrow> bool" where
  "truthy None = False"
| "truthy (Some s) = (s \<noteq> [])"

text \<open>The characters below 256 that the regular expression \<^verbatim>\<open>\s\<close> matches.\<close>

definition isWhiteSpace :: "char \<Rightarrow> bool" where
  "isWhiteSpace c =
     (c = CHR 0x09 \<or> c = CHR 0x0A \<or> c = CHR 0x0B \<or> c = CHR 0x0C \<or> c = CHR 0x0D \<or>
      c = CHR 0x20 \<or> c = CHR 0xA0)"

text \<open>\<^verbatim>\<open>env.appName.replace(/\s/g, '-')\<close>\<close>

definition platformName :: "string \<Rightarrow> string" where
  "platformName app = map (\<lambda>c. if isWhiteSpace c then CHR ''-'' else c) app"

definition userAgent :: "client_environment \<Rightarrow> string" where
  "userAgent env =
     ''AWS-Toolkit-For-VSCode/'' @ pluginVersion env @ '' '' @ platformName (appName env) @
     ''/'' @ editorVersion env"

text \<open>
  \<open>getCredentials\<close> is what \<^verbatim>\<open>this._awsContext.getCredentials()\<close> completes with, should it
  be awaited. \<open>addUserAgent\<close> is the optional last argument, \<^verbatim>\<open>true\<close> when left out.
\<close>

definition createAndConfigureServiceClient ::
  "client_environment \<Rightarrow> 'c option completion \<Rightarrow> ('c service_configuration_options \<Rightarrow> 't) \<Rightarrow>
   'c service_configuration_options option \<Rightarrow> string option \<Rightarrow> bool option \<Rightarrow> 't completion" where
  "createAndConfigureServiceClient env getCredentials awsServiceFactory awsServiceOpts regionArg
       addUserAgentArg =
     (let addUserAgent = (case addUserAgentArg of None \<Rightarrow> True | Some b \<Rightarrow> b);
          opts0 = (case awsServiceOpts of None \<Rightarrow> emptyOptions | Some opts \<Rightarrow> opts);
          withCredentials =
            (if credentials opts0 = None
             then (case getCredentials of
                     Threw e \<Rightarrow> Threw e
                   | Returned c \<Rightarrow> Returned (opts0\<lparr>credentials := c\<rparr>))
             else Returned opts0)
      in case withCredentials of
           Threw e \<Rightarrow> Threw e
         | Returned opts1 \<Rightarrow>
             (let opts2 = (if \<not> truthy (region opts1) \<and> truthy regionArg
                           then opts1\<lparr>region := regionArg\<rparr> else opts1);
                  opts3 = (if \<not> truthy (customUserAgent opts2) \<and> addUserAgent
                           then opts2\<lparr>customUserAgent := Some (userAgent env)\<rparr> else opts2);
                  opts4 = (if truthy (endpointSetting env)
                           then opts3\<lparr>endpoint := endpointSetting env\<rparr> else opts3)
              in Returned (awsServiceFactory opts4)))"

section \<open>Exit code validator\<close>

text \<open>The result of a child process, as the data model of the specification has it.\<close>

record process_result =
  exitCode :: "int option"
  launchError :: "error option"
  stdout :: string
  stderr :: string

text \<open>The structured diagnostic record written to the log on failure.\<close>

record exit_diagnostic =
  loggedExpected :: int
  loggedActual :: "int option"
  loggedStdout :: string
  loggedStderr :: string
  loggedMessage :: "string option"

text \<open>The typed failure: the mismatched codes and the captured output.\<close>

record unexpected_exit_code_error =
  expectedCode :: int
  actualCode :: "int option"
  capturedStdout :: string
  capturedStderr :: string

definition logDiagnostic :: "exit_diagnostic \<Rightarrow> exit_diagnostic list \<Rightarrow> exit_diagnostic list" where
  "logDiagnostic d logged = logged @ [d]"

text \<open>
  Modelled from the spec: \<^verbatim>\<open>logAndThrowIfUnexpectedExitCode\<close> of
  \<^verbatim>\<open>samCliInvokerUtils.ts\<close> is not among the sources (only its test is). Section 4.3:
  \<^verbatim>\<open>checkExit(result, expectedCode)\<close> fails with an \<^verbatim>\<open>UnexpectedExitCodeError\<close> carrying
  the mismatched codes and captured stdout/stderr when the exit code is not the expected
  one, a launch error counting as a mismatch; on failure it first logs one diagnostic
  record (expected code, actual code, truncated stdout, truncated stderr, the message of
  the triggering error if any) and then raises. How the output is truncated is not
  said: \<open>truncated\<close> is a parameter. The log is passed in and returned.
\<close>

definition checkExit ::
  "(string \<Rightarrow> string) \<Rightarrow> process_result \<Rightarrow> int \<Rightarrow> exit_diagnostic list \<Rightarrow>
   (unexpected_exit_code_error + unit) \<times> exit_diagnostic list" where
  "checkExit truncated result expected logged =
     (if launchError result \<noteq> None \<or> exitCode result \<noteq> Some expected
      then (let logged' =
                  logDiagnostic
                    \<lparr>loggedExpected = expected, loggedActual = exitCode result,
                     loggedStdout = truncated (stdout result),
                     loggedStderr = truncated (stderr result),
                     loggedMessage = map_option message (launchError result)\<rparr> logged
            in (Inl \<lparr>expectedCode = expected, actualCode = exitCode result,
                     capturedStdout = stdout result, capturedStderr = stderr result\<rparr>,
                logged'))
      else (Inr (), logged))"

section \<open>JSON text of a string-to-string mapping\<close>

text \<open>
  The extra template context is an object whose properties are strings. It is the list
  of its properties in enumeration order, so its keys are distinct. \<open>JSON_stringify\<close>
  is the platform's \<^verbatim>\<open>JSON.stringify\<close> on such an object, as ECMAScript defines it: the
  members in order, no white space, every string quoted by the rules of
  \<^verbatim>\<open>QuoteJSONString\<close>.
\<close>

definition hexDigit :: "nat \<Rightarrow> char" where
  "hexDigit n = (if n < 10 then char_of (48 + n) else char_of (87 + n))"

definition quoteChar :: "char \<Rightarrow> string" where
  "quoteChar c =
     (if c = CHR 0x08 then [CHR 0x5C, CHR ''b'']
      else if c = CHR 0x09 then [CHR 0x5C, CHR ''t'']
      else if c = CHR 0x0A then [CHR 0x5C, CHR ''n'']
      else if c = CHR 0x0C then [CHR 0x5C, CHR ''f'']
      else if c = CHR 0x0D then [CHR 0x5C, CHR ''r'']
      else if c = CHR 0x22 then [CHR 0x5C, CHR 0x22]
      else if c = CHR 0x5C then [CHR 0x5C, CHR 0x5C]
      else if (of_char c :: nat) < 32
      then [CHR 0x5C, CHR ''u'', CHR ''0'', CHR ''0'',
            hexDigit ((of_char c :: nat) div 16), hexDigit ((of_char c :: nat) mod 16)]
      else [c])"

definition quoteJSONString :: "string \<Rightarrow> string" where
  "quoteJSONString s = CHR 0x22 # concat (map quoteChar s) @ [CHR 0x22]"

fun serializeMembers :: "(string \<times> string) list \<Rightarrow> string" where
  "serializeMembers [] = []"
| "serializeMembers [(k, v)] = quoteJSONString k @ '':'' @ quoteJSONString v"
| "serializeMembers ((k, v) # m) =
     quoteJSONString k @ '':'' @ quoteJSONString v @ '','' @ serializeMembers m"

definition JSON_stringify :: "(string \<times> string) list \<Rightarrow> string" where
  "JSON_stringify m = ''{'' @ serializeMembers m @ ''}''"

text \<open>
  The decoder reads the JSON texts that denote an object whose members are strings, with
  white space between tokens and every escape of the JSON grammar; on any other text it
  gives \<open>None\<close>. A \<^verbatim>\<open>\u\<close> escape of a code unit above 255 is outside the strings
  modelled here and gives \<open>None\<close> as well. A member whose key is already there replaces
  the earlier value.
\<close>

definition isJsonWhitespace :: "char \<Rightarrow> bool" where
  "isJsonWhitespace c = (c = CHR 0x20 \<or> c = CHR 0x09 \<or> c = CHR 0x0A \<or> c = CHR 0x0D)"

definition skipWhitespace :: "string \<Rightarrow> string" where
  "skipWhitespace s = dropWhile isJsonWhitespace s"

definition hexValue :: "char \<Rightarrow> nat option" where
  "hexValue c =
     (let n = (of_char c :: nat)
      in if 48 \<le> n \<and> n \<le> 57 then Some (n - 48)
         else if 97 \<le> n \<and> n \<le> 102 then Some (n - 87)
         else if 65 \<le> n \<and> n \<le> 70 then Some (n - 55)
         else None)"

definition hex4 :: "char \<Rightarrow> char \<Rightarrow> char \<Rightarrow> char \<Rightarrow> nat option" where
  "hex4 a b c d =
     (case (hexValue a, hexValue b, hexValue c, hexValue d) of
        (Some x, Some y, Some z, Some w) \<Rightarrow> Some (((x * 16 + y) * 16 + z) * 16 + w)
      | _ \<Rightarrow> None)"

definition unescapeChar :: "char \<Rightarrow> char option" where
  "unescapeChar e =
     (if e = CHR 0x22 then Some (CHR 0x22)
      else if e = CHR 0x5C then Some (CHR 0x5C)
      else if e = CHR ''/'' then Some (CHR ''/'')
      else if e = CHR ''b'' then Some (CHR 0x08)
      else if e = CHR ''f'' then Some (CHR 0x0C)
      else if e = CHR ''n'' then Some (CHR 0x0A)
      else if e = CHR ''r'' then Some (CHR 0x0D)
      else if e = CHR ''t'' then Some (CHR 0x09)
      else None)"

definition consChar :: "char \<Rightarrow> (string \<times> string) option \<Rightarrow> (string \<times> string) option" where
  "consChar c r = map_option (\<lambda>(s, rest). (c # s, rest)) r"

text \<open>
  The characters of a string after its opening quote, up to the closing quote: the
  string denoted and the text that follows it.
\<close>

fun parseChars :: "string \<Rightarrow> (string \<times> string) option" where
  "parseChars [] = None"
| "parseChars (c # cs) =
     (if c = CHR 0x22 then Some ([], cs)
      else if c = CHR 0x5C then
        (case cs of
           [] \<Rightarrow> None
         | e # cs1 \<Rightarrow>
             if e = CHR ''u'' then
               (case cs1 of
                  h1 # h2 # h3 # h4 # cs2 \<Rightarrow>
                    (case hex4 h1 h2 h3 h4 of
                       None \<Rightarrow> None
                     | Some n \<Rightarrow> if n < 256 then consChar (char_of n) (parseChars cs2) else None)
                | _ \<Rightarrow> None)
             else (case unescapeChar e of
                     None \<Rightarrow> None
                   | Some ch \<Rightarrow> consChar ch (parseChars cs1)))
      else if (of_char c :: nat) < 32 then None
      else consChar c (parseChars cs))"

fun setProperty :: "string \<Rightarrow> string \<Rightarrow> (string \<times> string) list \<Rightarrow> (string \<times> string) list" where
  "setProperty k v [] = [(k, v)]"
| "setProperty k v ((k', v') # m) =
     (if k = k' then (k, v) # m else (k', v') # setProperty k v m)"

text \<open>
  The members of an object after its opening brace. The first argument bounds the number
  of members read; the length of the text is always enough.
\<close>

fun parseMembers :: "nat \<Rightarrow> (string \<times> string) list \<Rightarrow> string \<Rightarrow> (string \<times> string) list option" where
  "parseMembers 0 acc s = None"
| "parseMembers (Suc fuel) acc s =
     (case skipWhitespace s of
        [] \<Rightarrow> None
      | q1 # s1 \<Rightarrow>
          if q1 \<noteq> CHR 0x22 then None
          else (case parseChars s1 of
                  None \<Rightarrow> None
                | Some (k, s2) \<Rightarrow>
                    (case skipWhitespace s2 of
                       [] \<Rightarrow> None
                     | colon # s3 \<Rightarrow>
                         if colon \<noteq> CHR '':'' then None
                         else (case skipWhitespace s3 of
                                 [] \<Rightarrow> None
                               | q2 # s4 \<Rightarrow>
                                   if q2 \<noteq> CHR 0x22 then None
                                   else (case parseChars s4 of
                                           None \<Rightarrow> None
                                         | Some (v, s5) \<Rightarrow>
                                             (case skipWhitespace s5 of
                                                [] \<Rightarrow> None
                                              | sep # s6 \<Rightarrow>
                                                  if sep = CHR '','' then
                                                    parseMembers fuel (setProperty k v acc) s6
                                                  else if sep = CHR ''}'' then
                                                    (if skipWhitespace s6 = []
                                                     then Some (setProperty k v acc) else None)
                                                  else None))))))"

definition JSON_parse :: "string \<Rightarrow> (string \<times> string) list option" where
  "JSON_parse s =
     (case skipWhitespace s of
        [] \<Rightarrow> None
      | brace # s1 \<Rightarrow>
          if brace \<noteq> CHR ''{'' then None
          else (case skipWhitespace s1 of
                  [] \<Rightarrow> None
                | c # s2 \<Rightarrow>
                    if c = CHR ''}'' then (if skipWhitespace s2 = [] then Some [] else None)
                    else parseMembers (length s1) [] s1))"

text \<open>
  Deep equality of two such objects: the same keys with the same values, whatever the
  order of the properties.
\<close>

definition deepEqual :: "(string \<times> string) list \<Rightarrow> (string \<times> string) list \<Rightarrow> bool" where
  "deepEqual m1 m2 = (map_of m1 = map_of m2)"

section \<open>Argument builder of the init call\<close>

datatype package_type = Zip | Image

record init_request =
  projectName :: string
  targetDirectory :: string
  requestRuntime :: "string option"
  packageType :: package_type
  template :: "string option"
  dependencyManager :: string
  extraTemplateContext :: "(string \<times> string) list option"
  baseImage :: "string option"

text \<open>
  An entry of the command line: the token of the subcommand, a flag that stands alone, or
  a flag followed by its value. The argument vector is the entries written out in order.
\<close>

datatype cli_entry = Subcommand string | Flag string | FlagWithValue string string

fun flagOf :: "cli_entry \<Rightarrow> string option" where
  "flagOf (Subcommand t) = None"
| "flagOf (Flag f) = Some f"
| "flagOf (FlagWithValue f v) = Some f"

fun render :: "cli_entry \<Rightarrow> string list" where
  "render (Subcommand t) = [t]"
| "render (Flag f) = [f]"
| "render (FlagWithValue f v) = [f, v]"

text \<open>A flag with its value, or nothing when the value is absent.\<close>

definition optionalFlag :: "string \<Rightarrow> string option \<Rightarrow> cli_entry list" where
  "optionalFlag f v = (case v of None \<Rightarrow> [] | Some x \<Rightarrow> [FlagWithValue f x])"

text \<open>
  Modelled from the spec: \<^verbatim>\<open>runSamCliInit\<close> of \<^verbatim>\<open>samCliInit.ts\<close>, which builds the
  argument vector, is not among the sources (only its test is). Section 4.1: the
  subcommand token, \<^verbatim>\<open>--name\<close>, \<^verbatim>\<open>--no-interactive\<close> unconditionally,
  \<^verbatim>\<open>--dependency-manager\<close>; for an Image package \<^verbatim>\<open>--base-image\<close> and no template or
  runtime flag; for a Zip package \<^verbatim>\<open>--runtime\<close> and, if a template identifier is set,
  \<^verbatim>\<open>--app-template\<close> with the mapped parameter; \<^verbatim>\<open>--extra-context\<close> with the JSON text
  of the extra template context if there is one; no flag whose value is absent. The
  target directory is the working directory of the call, not an argument.
  \<^verbatim>\<open>getSamCliTemplateParameter\<close>, which maps a template identifier to the parameter, is
  not among the sources either and is a parameter.
\<close>

definition initEntries :: "(string \<Rightarrow> string) \<Rightarrow> init_request \<Rightarrow> cli_entry list" where
  "initEntries getSamCliTemplateParameter req =
     [Subcommand ''init'',
      FlagWithValue ''--name'' (projectName req),
      Flag ''--no-interactive'',
      FlagWithValue ''--dependency-manager'' (dependencyManager req)] @
     (case packageType req of
        Image \<Rightarrow> optionalFlag ''--base-image'' (baseImage req)
      | Zip \<Rightarrow>
          optionalFlag ''--runtime'' (requestRuntime req) @
          optionalFlag ''--app-template'' (map_option getSamCliTemplateParameter (template req))) @
     optionalFlag ''--extra-context'' (map_option JSON_stringify (extraTemplateContext req))"

definition buildArgs :: "(string \<Rightarrow> string) \<Rightarrow> init_request \<Rightarrow> string list" where
  "buildArgs getSamCliTemplateParameter req =
     concat (map render (initEntries getSamCliTemplateParameter req))"

section \<open>Creation workflow: \<^verbatim>\<open>createNewSamApplication\<close> and \<^verbatim>\<open>resumeCreateNewSamApp\<close>\<close>

subsection \<open>Statements that may return early or throw\<close>

text \<open>
  A statement runs on a state and completes in one of three ways: normally, with a value;
  by a \<^verbatim>\<open>return\<close> statement, which leaves the function; or by throwing. The state it
  leaves behind is kept in each case, since what was done before a throw stays done.
\<close>

datatype 'a flow = Next 'a | Exit | Raise error

type_synonym ('s, 'a) prog = "'s \<Rightarrow> 'a flow \<times> 's"

definition andThen :: "('s, 'a) prog \<Rightarrow> ('a \<Rightarrow> ('s, 'b) prog) \<Rightarrow> ('s, 'b) prog" where
  "andThen m k s =
     (case m s of
        (Next a, s') \<Rightarrow> k a s'
      | (Exit, s') \<Rightarrow> (Exit, s')
      | (Raise e, s') \<Rightarrow> (Raise e, s'))"

definition seq :: "('s, 'a) prog \<Rightarrow> ('s, 'b) prog \<Rightarrow> ('s, 'b) prog" where
  "seq m n = andThen m (\<lambda>_. n)"

definition skip :: "('s, unit) prog" where
  "skip s = (Next (), s)"

definition modify :: "('s \<Rightarrow> 's) \<Rightarrow> ('s, unit) prog" where
  "modify f s = (Next (), f s)"

definition returnStatement :: "('s, 'a) prog" where
  "returnStatement s = (Exit, s)"

definition throw :: "error \<Rightarrow> ('s, 'a) prog" where
  "throw e s = (Raise e, s)"

text \<open>\<^verbatim>\<open>await\<close> of a collaborator's call whose completion is given.\<close>

definition await :: "'a completion \<Rightarrow> ('s, 'a) prog" where
  "await c s = (case c of Returned a \<Rightarrow> (Next a, s) | Threw e \<Rightarrow> (Raise e, s))"

text \<open>
  \<^verbatim>\<open>try { body } catch (err) { handler } finally { finalizer }\<close>: the handler runs when
  the body throws; the finalizer runs whatever happened, also after a \<^verbatim>\<open>return\<close> and
  after a throw of the handler; a finalizer that completes normally leaves the earlier
  completion in place.
\<close>

definition tryCatchFinally ::
  "('s, unit) prog \<Rightarrow> (error \<Rightarrow> ('s, unit) prog) \<Rightarrow> ('s, unit) prog \<Rightarrow> ('s, unit) prog" where
  "tryCatchFinally body handler finalizer s =
     (case body s of
        (c1, s1) \<Rightarrow>
          (case (case c1 of Raise e \<Rightarrow> handler e s1 | _ \<Rightarrow> (c1, s1)) of
             (c2, s2) \<Rightarrow>
               (case finalizer s2 of
                  (Next u, s3) \<Rightarrow> (c2, s3)
                | (c3, s3) \<Rightarrow> (c3, s3))))"

subsection \<open>State of a run\<close>

datatype result_kind = Succeeded | Failed | Cancelled

datatype create_reason = Unknown | UserCancelled | FileNotFound | Complete | ErrorReason

text \<open>The argument of \<^verbatim>\<open>recordSamInit\<close>: one outcome event.\<close>

record sam_init_event =
  eventLambdaPackageType :: "package_type option"
  eventResult :: result_kind
  eventReason :: create_reason
  eventRuntime :: "string option"
  eventVersion :: "string option"

text \<open>\<^verbatim>\<open>SamInitState\<close>, kept by \<^verbatim>\<open>ActivationReloadState\<close> across a reload.\<close>

record sam_init_state =
  statePath :: "string option"
  stateRuntime :: "string option"
  stateIsImage :: bool

text \<open>
  What the user and the log see: messages by the key of their text and its arguments.
\<close>

datatype notice =
    ShowErrorMessage string "string list"
  | ShowWarningMessage string "string list"
  | ShowInformationMessage string "string list"
  | ShowOutputChannel
  | ChannelError string
  | ChannelInfo string "string list"
  | LoggedError string error

text \<open>
  The state a run works on. The first four fields are the world outside: the outcome
  events recorded so far, the state kept for a reload, the notices shown or logged, and
  the configurations with the launch configuration store. The others are the local
  variables that the \<^verbatim>\<open>finally\<close> block reads. Recording an event, keeping or clearing
  the reload state, showing a message and writing to the log are updates of this state;
  every other call of a collaborator completes, by returning or by throwing, as its
  parameter says.
\<close>

record workflow_state =
  telemetry :: "sam_init_event list"
  reloadState :: "sam_init_state option"
  notices :: "notice list"
  launch :: launch_world
  createResult :: result_kind
  reason :: create_reason
  lambdaPackageType :: "package_type option"
  createRuntime :: "string option"
  samVersion :: "string option"

definition recordSamInit :: "sam_init_event \<Rightarrow> (workflow_state, unit) prog" where
  "recordSamInit ev = modify (\<lambda>s. s\<lparr>telemetry := telemetry s @ [ev]\<rparr>)"

definition setSamInitState :: "sam_init_state \<Rightarrow> (workflow_state, unit) prog" where
  "setSamInitState st = modify (\<lambda>s. s\<lparr>reloadState := Some st\<rparr>)"

definition clearSamInitState :: "(workflow_state, unit) prog" where
  "clearSamInitState = modify (\<lambda>s. s\<lparr>reloadState := None\<rparr>)"

definition notify :: "notice \<Rightarrow> (workflow_state, unit) prog" where
  "notify n = modify (\<lambda>s. s\<lparr>notices := notices s @ [n]\<rparr>)"

subsection \<open>Collaborators\<close>

text \<open>The answer of the wizard.\<close>

record wizard_response =
  responseName :: string
  responseLocation :: string
  responseRuntime :: string
  responsePackageType :: package_type
  responseTemplate :: string
  responseRegion :: "string option"
  responseSchemaName :: "string option"
  responseRegistryName :: "string option"

text \<open>\<^verbatim>\<open>SamCliInitArgs\<close>, as the workflow fills it in.\<close>

record sam_cli_init_args =
  initName :: string
  initLocation :: string
  initDependencyManager :: string
  initExtraContent :: "(string \<times> string) list option"
  initBaseImage :: "string option"
  initRuntime :: "string option"
  initTemplate :: "string option"

text \<open>
  The collaborators of a run, each by what its call completes with. A field of type
  \<open>unit completion\<close> is a call made for its effect, which either goes through or throws.
\<close>

record workflow_env =
  validateSamCli :: "unit completion"
  awsContextGetCredentials :: "unit completion"
  schemasRegions :: "unit completion"
  getSamCliVersion :: "string completion"
  wizardRun :: "wizard_response option completion"
  getDependencyManager :: "string \<Rightarrow> string completion"
  eventBridgeStarterAppTemplate :: string
  buildSchemaTemplateParameters :: "(string \<times> string) list completion"
  runSamCliInit :: "sam_cli_init_args \<Rightarrow> unit completion"
  pathResolve :: "string \<Rightarrow> string \<Rightarrow> string \<Rightarrow> string"
  fileExists :: "string \<Rightarrow> bool completion"
  downloadCode :: "unit completion"
  addFolderToWorkspace :: "unit completion"
  waitUntilRegistered :: "string \<Rightarrow> bool completion"
  uriFile :: "string option \<Rightarrow> string completion"
  getWorkspaceFolder :: "string \<Rightarrow> string option"
  provideDebugConfigurations :: "addr list option completion"
  launchAddDebugConfigurations :: "debug_configuration list \<Rightarrow> error option"
  pathutilsAreEqual :: "string \<Rightarrow> string \<Rightarrow> string \<Rightarrow> bool"
  openDocument :: "string \<Rightarrow> unit completion"

subsection \<open>The reconciler as a statement of the workflow\<close>

text \<open>
  The call \<^verbatim>\<open>addInitialLaunchConfiguration(extContext, folder, uri, runtime)\<close>. Its last
  parameter defaults to \<^verbatim>\<open>new LaunchConfiguration(folder.uri)\<close>, so a folder that is
  \<^verbatim>\<open>undefined\<close> makes the call throw before anything else happens.
\<close>

definition callAddInitialLaunchConfiguration ::
  "workflow_env \<Rightarrow> string option \<Rightarrow> string \<Rightarrow> string option \<Rightarrow>
   (workflow_state, addr list option) prog" where
  "callAddInitialLaunchConfiguration env folder targetFsPath runtimeArg s =
     (case folder of
        None \<Rightarrow> (Raise (Error ''Cannot read property uri of undefined''), s)
      | Some folderFsPath \<Rightarrow>
          (case addInitialLaunchConfiguration (pathutilsAreEqual env) (provideDebugConfigurations env)
                  (launchAddDebugConfigurations env) folderFsPath targetFsPath runtimeArg (launch s) of
             (Returned r, w) \<Rightarrow> (Next r, s\<lparr>launch := w\<rparr>)
           | (Threw e, w) \<Rightarrow> (Raise e, s\<lparr>launch := w\<rparr>)))"

subsection \<open>\<^verbatim>\<open>getMainUri\<close>\<close>

definition getMainUri :: "workflow_env \<Rightarrow> wizard_response \<Rightarrow> (workflow_state, string option) prog" where
  "getMainUri env config =
     (let cfnTemplatePath =
            pathResolve env (responseLocation config) (responseName config) ''README.md''
      in andThen (await (fileExists env cfnTemplatePath)) (\<lambda>found.
           if found then (\<lambda>s. (Next (Some cfnTemplatePath), s))
           else seq (notify (ShowWarningMessage ''AWS.samcli.initWizard.source.error.notFound''
                               [cfnTemplatePath]))
                    (\<lambda>s. (Next None, s))))"

subsection \<open>\<^verbatim>\<open>createNewSamApplication\<close>\<close>

text \<open>The argument of \<^verbatim>\<open>recordSamInit\<close> in the \<^verbatim>\<open>finally\<close> block, read off the variables.\<close>

definition createEvent :: "workflow_state \<Rightarrow> sam_init_event" where
  "createEvent s =
     \<lparr>eventLambdaPackageType = lambdaPackageType s, eventResult = createResult s,
      eventReason = reason s, eventRuntime = createRuntime s, eventVersion = samVersion s\<rparr>"

text \<open>The statements from the call of \<^verbatim>\<open>runSamCliInit\<close> to the end of the \<^verbatim>\<open>try\<close> block.\<close>

definition createNewSamApplication_afterInit ::
  "workflow_env \<Rightarrow> wizard_response \<Rightarrow> string \<Rightarrow> (workflow_state, unit) prog" where
  "createNewSamApplication_afterInit env config runtimeOfConfig =
     andThen (getMainUri env config) (\<lambda>uri.
       case uri of
         None \<Rightarrow> seq (modify (\<lambda>s. s\<lparr>reason := FileNotFound\<rparr>)) returnStatement
       | Some uriFsPath \<Rightarrow>
           seq (if responseTemplate config = eventBridgeStarterAppTemplate env
                then seq (notify (ChannelInfo ''AWS.message.info.schemas.downloadCodeBindings.start''
                                    [case responseSchemaName config of None \<Rightarrow> [] | Some n \<Rightarrow> n]))
                    (seq (await (downloadCode env))
                         (notify (ShowInformationMessage
                                    ''AWS.message.info.schemas.downloadCodeBindings.finished''
                                    [case responseSchemaName config of None \<Rightarrow> [] | Some n \<Rightarrow> n])))
                else skip)
          (seq (setSamInitState
                  \<lparr>statePath = Some uriFsPath, stateRuntime = Some runtimeOfConfig,
                   stateIsImage = (responsePackageType config = Image)\<rparr>)
          (seq (await (addFolderToWorkspace env))
          (andThen (await (waitUntilRegistered env uriFsPath)) (\<lambda>isTemplateRegistered.
           seq (if isTemplateRegistered
                then andThen (callAddInitialLaunchConfiguration env
                                (getWorkspaceFolder env uriFsPath) uriFsPath (Some runtimeOfConfig))
                       (\<lambda>newLaunchConfigs.
                          seq (case newLaunchConfigs of
                                 None \<Rightarrow> skip
                               | Some cs \<Rightarrow>
                                   if length cs > 0
                                   then (\<lambda>s. notify (ShowInformationMessage
                                                ''AWS.samcli.initWizard.completionMessage''
                                                (responseName config #
                                                 map (\<lambda>a. name (heap (launch s) a)) cs)) s)
                                   else skip)
                              (modify (\<lambda>s. s\<lparr>reason := Complete\<rparr>)))
                else seq (modify (\<lambda>s. s\<lparr>createResult := Failed, reason := FileNotFound\<rparr>))
                         (notify (ShowWarningMessage ''AWS.samcli.initWizard.launchConfigFail''
                                    [responseName config])))
          (seq clearSamInitState
               (await (openDocument env uriFsPath))))))))"

text \<open>The \<^verbatim>\<open>try\<close> block.\<close>

definition createNewSamApplication_try :: "workflow_env \<Rightarrow> (workflow_state, unit) prog" where
  "createNewSamApplication_try env =
     seq (await (validateSamCli env))
    (seq (await (awsContextGetCredentials env))
    (seq (await (schemasRegions env))
    (andThen (await (getSamCliVersion env)) (\<lambda>v.
     seq (modify (\<lambda>s. s\<lparr>samVersion := Some v\<rparr>))
    (andThen (await (wizardRun env)) (\<lambda>answer.
       case answer of
         None \<Rightarrow>
           seq (modify (\<lambda>s. s\<lparr>createResult := Cancelled, reason := UserCancelled\<rparr>))
               returnStatement
       | Some config \<Rightarrow>
           seq (modify (\<lambda>s. s\<lparr>createRuntime := Some (responseRuntime config)\<rparr>))
          (andThen (await (getDependencyManager env (responseRuntime config))) (\<lambda>manager.
           andThen (if responseTemplate config = eventBridgeStarterAppTemplate env
                    then andThen (await (buildSchemaTemplateParameters env))
                           (\<lambda>extra. (\<lambda>s. (Next (Some extra), s)))
                    else (\<lambda>s. (Next None, s))) (\<lambda>extraContent.
           andThen (if responsePackageType config = Image
                    then seq (modify (\<lambda>s. s\<lparr>lambdaPackageType := Some Image\<rparr>))
                             (\<lambda>s. (Next \<lparr>initName = responseName config,
                                          initLocation = responseLocation config,
                                          initDependencyManager = manager,
                                          initExtraContent = extraContent,
                                          initBaseImage =
                                            Some (''amazon/'' @ responseRuntime config @ ''-base''),
                                          initRuntime = None, initTemplate = None\<rparr>, s))
                    else seq (modify (\<lambda>s. s\<lparr>lambdaPackageType := Some Zip\<rparr>))
                             (\<lambda>s. (Next \<lparr>initName = responseName config,
                                          initLocation = responseLocation config,
                                          initDependencyManager = manager,
                                          initExtraContent = extraContent,
                                          initBaseImage = None,
                                          initRuntime = Some (responseRuntime config),
                                          initTemplate = Some (responseTemplate config)\<rparr>, s)))
             (\<lambda>initArguments.
           seq (await (runSamCliInit env initArguments))
               (createNewSamApplication_afterInit env config (responseRuntime config))))))))))))"

text \<open>The \<^verbatim>\<open>catch\<close> block.\<close>

definition createNewSamApplication_catch :: "error \<Rightarrow> (workflow_state, unit) prog" where
  "createNewSamApplication_catch err =
     seq (modify (\<lambda>s. s\<lparr>createResult := Failed, reason := ErrorReason\<rparr>))
    (seq (notify ShowOutputChannel)
    (seq (notify (ChannelError ''AWS.samcli.initWizard.general.error''))
    (seq (notify (LoggedError ''Error creating new SAM Application'' err))
         clearSamInitState)))"

text \<open>The \<^verbatim>\<open>finally\<close> block.\<close>

definition createNewSamApplication_finally :: "(workflow_state, unit) prog" where
  "createNewSamApplication_finally = (\<lambda>s. recordSamInit (createEvent s) s)"

definition createNewSamApplication :: "workflow_env \<Rightarrow> (workflow_state, unit) prog" where
  "createNewSamApplication env s =
     tryCatchFinally (createNewSamApplication_try env) createNewSamApplication_catch
       createNewSamApplication_finally
       (s\<lparr>createResult := Succeeded, reason := Unknown, lambdaPackageType := None,
          createRuntime := None, samVersion := None\<rparr>)"

subsection \<open>\<^verbatim>\<open>resumeCreateNewSamApp\<close>\<close>

definition resumeEvent :: "sam_init_state option \<Rightarrow> workflow_state \<Rightarrow> sam_init_event" where
  "resumeEvent samInitState s =
     \<lparr>eventLambdaPackageType =
        Some (if (case samInitState of None \<Rightarrow> False | Some st \<Rightarrow> stateIsImage st)
              then Image else Zip),
      eventResult = createResult s, eventReason = reason s,
      eventRuntime = (case samInitState of None \<Rightarrow> None | Some st \<Rightarrow> stateRuntime st),
      eventVersion = samVersion s\<rparr>"

definition resumeCreateNewSamApp_try ::
  "workflow_env \<Rightarrow> sam_init_state option \<Rightarrow> (workflow_state, unit) prog" where
  "resumeCreateNewSamApp_try env samInitState =
     andThen (await (uriFile env (case samInitState of None \<Rightarrow> None | Some st \<Rightarrow> statePath st)))
       (\<lambda>uriFsPath.
          case getWorkspaceFolder env uriFsPath of
            None \<Rightarrow>
              seq (modify (\<lambda>s. s\<lparr>createResult := Failed, reason := ErrorReason\<rparr>))
             (seq (notify (ShowErrorMessage ''AWS.samcli.initWizard.source.error.notInWorkspace''
                             [uriFsPath]))
                  returnStatement)
          | Some folder \<Rightarrow>
              andThen (await (getSamCliVersion env)) (\<lambda>v.
              seq (modify (\<lambda>s. s\<lparr>samVersion := Some v\<rparr>))
             (seq (callAddInitialLaunchConfiguration env (Some folder) uriFsPath
                     (case samInitState of
                        None \<Rightarrow> None
                      | Some st \<Rightarrow> if stateIsImage st then stateRuntime st else None))
                  (await (openDocument env uriFsPath)))))"

definition resumeCreateNewSamApp_catch :: "error \<Rightarrow> (workflow_state, unit) prog" where
  "resumeCreateNewSamApp_catch err =
     seq (modify (\<lambda>s. s\<lparr>createResult := Failed, reason := ErrorReason\<rparr>))
    (seq (notify ShowOutputChannel)
    (seq (notify (ChannelError ''AWS.samcli.initWizard.resume.error''))
         (notify (LoggedError ''Error resuming new SAM Application'' err))))"

definition resumeCreateNewSamApp_finally ::
  "sam_init_state option \<Rightarrow> (workflow_state, unit) prog" where
  "resumeCreateNewSamApp_finally samInitState =
     seq clearSamInitState (\<lambda>s. recordSamInit (resumeEvent samInitState s) s)"

definition resumeCreateNewSamApp :: "workflow_env \<Rightarrow> (workflow_state, unit) prog" where
  "resumeCreateNewSamApp env s =
     (let samInitState = reloadState s
      in tryCatchFinally (resumeCreateNewSamApp_try env samInitState) resumeCreateNewSamApp_catch
           (resumeCreateNewSamApp_finally samInitState)
           (s\<lparr>createResult := Succeeded, reason := Complete, samVersion := None\<rparr>))"

subsection \<open>Statements that leave a part of the state alone\<close>

text \<open>
  A statement preserves an observation of the state when the observation is the same
  after the statement as before, however the statement completes.
\<close>

definition preserves :: "('s \<Rightarrow> 'x) \<Rightarrow> ('s, 'a) prog \<Rightarrow> bool" where
  "preserves obs m = (\<forall>s. obs (snd (m s)) = obs s)"

section \<open>Sample inputs\<close>

text \<open>
  The configuration of the reconciler's tests, a second one with a code-typed target, and
  a heap holding the first at address 0 and the second everywhere else. \<open>sampleAreEqual\<close>
  resolves a leading \<^verbatim>\<open>${workspaceFolder}\<close> against the root and then compares.
\<close>

definition templateConfiguration :: debug_configuration where
  "templateConfiguration =
     \<lparr>configType = ''aws-sam'', name = ''name'', request = ''direct-invoke'',
      invokeTarget = TemplateTarget ''${workspaceFolder}/test.yaml'' ''resource'',
      lambda = None\<rparr>"

definition codeConfiguration :: debug_configuration where
  "codeConfiguration =
     \<lparr>configType = ''aws-sam'', name = ''handler'', request = ''direct-invoke'',
      invokeTarget = CodeTarget ''app.handler'' ''${workspaceFolder}'',
      lambda = Some \<lparr>runtime = Some ''nodejs10.x'', otherProperties = []\<rparr>\<rparr>"

definition sampleWorld :: launch_world where
  "sampleWorld =
     \<lparr>heap = (\<lambda>a. if a = 0 then templateConfiguration else codeConfiguration), addCalls = []\<rparr>"

definition sampleAreEqual :: "string \<Rightarrow> string \<Rightarrow> string \<Rightarrow> bool" where
  "sampleAreEqual root path1 path2 =
     ((if take 18 path1 = ''${workspaceFolder}'' then root @ drop 18 path1 else path1) = path2)"

text \<open>An editor environment with an endpoint override in the settings.\<close>

definition sampleEnvironment :: client_environment where
  "sampleEnvironment =
     \<lparr>appName = ''Visual Studio Code'', editorVersion = ''1.50.0'', pluginVersion = ''1.17.0'',
      endpointSetting = Some ''http://localhost:4566''\<rparr>"


definition unexpectedExit :: process_result where
  "unexpectedExit =
     \<lparr>exitCode = Some 123, launchError = Some (Error ''bad result''),
      stdout = ''stdout text'', stderr = ''stderr text''\<rparr>"


text \<open>
  The init requests of the argument builder's tests, and the first of them without its
  template.
\<close>

definition helloWorldRequest :: init_request where
  "helloWorldRequest =
     \<lparr>projectName = ''qwerty'', targetDirectory = ''/some/path/to/code.js'',
      requestRuntime = Some ''nodejs10.x'', packageType = Zip,
      template = Some ''AWS SAM Hello World'', dependencyManager = ''npm'',
      extraTemplateContext = None, baseImage = None\<rparr>"

definition requestWithoutTemplate :: init_request where
  "requestWithoutTemplate = helloWorldRequest\<lparr>template := None\<rparr>"

definition extraContent :: "(string \<times> string) list" where
  "extraContent =
     [(''AWS_Schema_registry'', ''testRegistry''), (''AWS_Schema_name'', ''testSchema''),
      (''AWS_Schema_root'', ''test''), (''AWS_Schema_source'', ''AWS''),
      (''AWS_Schema_detail_type'', ''ec2''), (''user_agent'', ''testAgent'')]"

definition eventBridgeRequest :: init_request where
  "eventBridgeRequest =
     \<lparr>projectName = ''qwerty'', targetDirectory = ''/some/path/to/code.js'',
      requestRuntime = Some ''python3.6'', packageType = Zip,
      template = Some ''AWS SAM EventBridge App from Scratch'', dependencyManager = ''npm'',
      extraTemplateContext = Some extraContent, baseImage = None\<rparr>"

text \<open>
  Collaborators for a run of the workflow: the wizard answers with a Zip application, every
  call goes through, and the provider hands out the two sample configurations. In the
  second environment the call of \<^verbatim>\<open>sam init\<close> fails; in the third the user cancels the
  wizard.
\<close>

definition sampleResponse :: wizard_response where
  "sampleResponse =
     \<lparr>responseName = ''qwerty'', responseLocation = ''/w'', responseRuntime = ''nodejs10.x'',
      responsePackageType = Zip, responseTemplate = ''AWS SAM Hello World'',
      responseRegion = None, responseSchemaName = None, responseRegistryName = None\<rparr>"

definition sampleWorkflowEnv :: workflow_env where
  "sampleWorkflowEnv =
     \<lparr>validateSamCli = Returned (), awsContextGetCredentials = Returned (),
      schemasRegions = Returned (), getSamCliVersion = Returned ''1.0.0'',
      wizardRun = Returned (Some sampleResponse),
      getDependencyManager = (\<lambda>rt. Returned ''npm''),
      eventBridgeStarterAppTemplate = ''AWS SAM EventBridge App from Scratch'',
      buildSchemaTemplateParameters = Returned [],
      runSamCliInit = (\<lambda>args. Returned ()),
      pathResolve = (\<lambda>a b c. a @ ''/'' @ b @ ''/'' @ c),
      fileExists = (\<lambda>f. Returned True),
      downloadCode = Returned (), addFolderToWorkspace = Returned (),
      waitUntilRegistered = (\<lambda>u. Returned True),
      uriFile = (\<lambda>f. case f of None \<Rightarrow> Threw (Error ''path must be a string'')
                         | Some f' \<Rightarrow> Returned f'),
      getWorkspaceFolder = (\<lambda>u. Some ''/w''),
      provideDebugConfigurations = Returned (Some [0, 1]),
      launchAddDebugConfigurations = (\<lambda>cs. None),
      pathutilsAreEqual = sampleAreEqual,
      openDocument = (\<lambda>u. Returned ())\<rparr>"

definition failingInitEnv :: workflow_env where
  "failingInitEnv =
     sampleWorkflowEnv\<lparr>runSamCliInit := (\<lambda>args. Threw (Error ''Error with child process''))\<rparr>"

definition cancellingEnv :: workflow_env where
  "cancellingEnv = sampleWorkflowEnv\<lparr>wizardRun := Returned None\<rparr>"

definition sampleState :: workflow_state where
  "sampleState =
     \<lparr>telemetry = [], reloadState = None, notices = [], launch = sampleWorld,
      createResult = Succeeded, reason = Unknown, lambdaPackageType = None,
      createRuntime = None, samVersion = None\<rparr>"

definition resumableState :: workflow_state where
  "resumableState =
     sampleState\<lparr>reloadState :=
       Some \<lparr>statePath = Some ''/w/qwerty/README.md'', stateRuntime = Some ''nodejs10.x'',
             stateIsImage = False\<rparr>\<rparr>"

section \<open>Properties of the reconciler\<close>

lemma stampRuntime_idem: "stampRuntime rt (stampRuntime rt c) = stampRuntime rt c"
  by (simp add: stampRuntime_def Let_def split: option.splits)

lemma forEachStampRuntime_apply:
  "forEachStampRuntime rt filtered h a =
     (if a \<in> set filtered then stampRuntime rt (h a) else h a)"
  unfolding forEachStampRuntime_def
  by (induction filtered arbitrary: h) (simp_all add: stampRuntime_idem)

lemma targetsTemplate_iff:
  "targetsTemplate areEqual folderFsPath targetFsPath c =
     (case invokeTarget c of
        TemplateTarget templatePath l \<Rightarrow> areEqual folderFsPath templatePath targetFsPath
      | CodeTarget h r \<Rightarrow> False)"
  by (simp add: targetsTemplate_def split: invoke_target.splits)

text \<open>
  Claim C1. When the provider hands out a list of configurations and the store's call goes
  through, the reconciler returns exactly the configurations of that list whose invoke
  target is template-typed and whose template path, resolved against the workspace root,
  path-equals the target file path, in the order of the list. In particular, when no
  configuration matches, it returns the empty list and not \<^verbatim>\<open>undefined\<close>.
\<close>

theorem reconciler_returns_matching:
  assumes "\<forall>cs. addDebugConfigurations cs = None"
  shows "fst (addInitialLaunchConfiguration areEqual (Returned (Some configurations))
               addDebugConfigurations folderFsPath targetFsPath runtimeArg w) =
           Returned (Some (filter (\<lambda>a. case invokeTarget (heap w a) of
                                          TemplateTarget templatePath l \<Rightarrow>
                                            areEqual folderFsPath templatePath targetFsPath
                                        | CodeTarget h r \<Rightarrow> False) configurations)) \<and>
         ((\<forall>a \<in> set configurations.
             \<not> (case invokeTarget (heap w a) of
                  TemplateTarget templatePath l \<Rightarrow>
                    areEqual folderFsPath templatePath targetFsPath
                | CodeTarget h r \<Rightarrow> False)) \<longrightarrow>
          fst (addInitialLaunchConfiguration areEqual (Returned (Some configurations))
                addDebugConfigurations folderFsPath targetFsPath runtimeArg w) =
            Returned (Some []))"
proof -
  let ?p = "\<lambda>a. case invokeTarget (heap w a) of
                   TemplateTarget templatePath l \<Rightarrow>
                     areEqual folderFsPath templatePath targetFsPath
                 | CodeTarget h r \<Rightarrow> False"
  have res: "fst (addInitialLaunchConfiguration areEqual (Returned (Some configurations))
               addDebugConfigurations folderFsPath targetFsPath runtimeArg w) =
             Returned (Some (filter ?p configurations))"
    using assms by (simp add: addInitialLaunchConfiguration_def Let_def targetsTemplate_iff)
  have "filter ?p configurations = []" if "\<forall>a \<in> set configurations. \<not> ?p a"
    using that by (simp add: filter_empty_conv)
  with res show ?thesis by simp
qed

theorem reconciler_returns_matching_witness:
  "fst (addInitialLaunchConfiguration sampleAreEqual (Returned (Some [0, 1])) (\<lambda>cs. None)
          ''/w'' ''/w/test.yaml'' None sampleWorld) = Returned (Some [0]) \<and>
   fst (addInitialLaunchConfiguration sampleAreEqual (Returned (Some [0, 1])) (\<lambda>cs. None)
          ''/w'' ''/w/other.yaml'' None sampleWorld) = Returned (Some [])"
  using reconciler_returns_matching [of "\<lambda>cs. None" sampleAreEqual "[0, 1]" "''/w''"
          "''/w/test.yaml''" None sampleWorld]
        reconciler_returns_matching [of "\<lambda>cs. None" sampleAreEqual "[0, 1]" "''/w''"
          "''/w/other.yaml''" None sampleWorld]
  by (simp add: sampleWorld_def sampleAreEqual_def templateConfiguration_def
        codeConfiguration_def)

text \<open>
  Claim C4. With a runtime supplied, after the call every configuration of the filtered
  list has a \<^verbatim>\<open>lambda\<close> object whose \<^verbatim>\<open>runtime\<close> is the supplied value: the object is
  created (with nothing else in it) where there was none and keeps its other properties
  where there was one, and nothing else of the configuration changes. A configuration
  outside the filtered list is left as it was. This holds whether or not the store's call
  fails afterwards.
\<close>

theorem reconciler_stamps_runtime:
  assumes "w' = snd (addInitialLaunchConfiguration areEqual (Returned (Some configurations))
                      addDebugConfigurations folderFsPath targetFsPath (Some rt) w)"
      and "filtered = filter (\<lambda>a. case invokeTarget (heap w a) of
                                     TemplateTarget templatePath l \<Rightarrow>
                                       areEqual folderFsPath templatePath targetFsPath
                                   | CodeTarget h r \<Rightarrow> False) configurations"
  shows "(\<forall>a \<in> set filtered.
            (\<exists>holder. lambda (heap w' a) = Some holder \<and> runtime holder = Some rt \<and>
               otherProperties holder =
                 (case lambda (heap w a) of None \<Rightarrow> [] | Some l \<Rightarrow> otherProperties l)) \<and>
            heap w' a = (heap w a)\<lparr>lambda := lambda (heap w' a)\<rparr>) \<and>
         (\<forall>a. a \<notin> set filtered \<longrightarrow> heap w' a = heap w a)"
proof -
  have h: "heap w' = forEachStampRuntime rt filtered (heap w)"
    using assms by (simp add: addInitialLaunchConfiguration_def Let_def targetsTemplate_iff
        split: option.splits)
  show ?thesis
    unfolding h forEachStampRuntime_apply
    by (auto simp: stampRuntime_def emptyObject_def Let_def split: option.splits)
qed

theorem reconciler_stamps_runtime_witness:
  "(\<exists>holder. lambda (heap (snd (addInitialLaunchConfiguration sampleAreEqual
        (Returned (Some [0, 1])) (\<lambda>cs. None) ''/w'' ''/w/test.yaml'' (Some ''someruntime'')
        sampleWorld)) 0) = Some holder \<and> runtime holder = Some ''someruntime'') \<and>
   heap (snd (addInitialLaunchConfiguration sampleAreEqual
        (Returned (Some [0, 1])) (\<lambda>cs. None) ''/w'' ''/w/test.yaml'' (Some ''someruntime'')
        sampleWorld)) 1 = codeConfiguration"
  using reconciler_stamps_runtime [OF refl refl, where areEqual = sampleAreEqual
          and configurations = "[0, 1]" and addDebugConfigurations = "\<lambda>cs. None"
          and folderFsPath = "''/w''" and targetFsPath = "''/w/test.yaml''"
          and rt = "''someruntime''" and w = sampleWorld]
  by (auto simp: sampleWorld_def sampleAreEqual_def templateConfiguration_def
        codeConfiguration_def)

text \<open>
  Against claim C5 as stated: when the store's call fails, the reconciler throws that
  error and returns no list.
\<close>

theorem reconciler_persist_failure_counterexample:
  "fst (addInitialLaunchConfiguration sampleAreEqual (Returned (Some [0, 1]))
          (\<lambda>cs. Some (Error ''cannot write launch.json'')) ''/w'' ''/w/test.yaml'' None
          sampleWorld) = Threw (Error ''cannot write launch.json'') \<and>
   fst (addInitialLaunchConfiguration sampleAreEqual (Returned (Some [0, 1]))
          (\<lambda>cs. Some (Error ''cannot write launch.json'')) ''/w'' ''/w/test.yaml'' None
          sampleWorld) \<noteq> Returned (Some [0])"
  by (simp add: addInitialLaunchConfiguration_def Let_def)

text \<open>
  Claim C5, amended. The reconciler hands the filtered list, with the runtime stamped if
  one was supplied, to the store in exactly one call of \<^verbatim>\<open>addDebugConfigurations\<close>.
  If that call goes through, the reconciler returns the same list; if it fails, the
  error propagates to the caller unchanged and no list is returned.
\<close>

theorem reconciler_persists_then_returns:
  "addCalls (snd (addInitialLaunchConfiguration areEqual (Returned (Some configurations))
                    addDebugConfigurations folderFsPath targetFsPath runtimeArg w)) =
     addCalls w @
       [map (heap (snd (addInitialLaunchConfiguration areEqual (Returned (Some configurations))
                          addDebugConfigurations folderFsPath targetFsPath runtimeArg w)))
          (filter (\<lambda>a. case invokeTarget (heap w a) of
                          TemplateTarget templatePath l \<Rightarrow>
                            areEqual folderFsPath templatePath targetFsPath
                        | CodeTarget h r \<Rightarrow> False) configurations)] \<and>
   fst (addInitialLaunchConfiguration areEqual (Returned (Some configurations))
          addDebugConfigurations folderFsPath targetFsPath runtimeArg w) =
     (case addDebugConfigurations
             (map (heap (snd (addInitialLaunchConfiguration areEqual
                                (Returned (Some configurations)) addDebugConfigurations
                                folderFsPath targetFsPath runtimeArg w)))
                (filter (\<lambda>a. case invokeTarget (heap w a) of
                                TemplateTarget templatePath l \<Rightarrow>
                                  areEqual folderFsPath templatePath targetFsPath
                              | CodeTarget h r \<Rightarrow> False) configurations)) of
        None \<Rightarrow>
          Returned (Some (filter (\<lambda>a. case invokeTarget (heap w a) of
                                         TemplateTarget templatePath l \<Rightarrow>
                                           areEqual folderFsPath templatePath targetFsPath
                                       | CodeTarget h r \<Rightarrow> False) configurations))
      | Some e \<Rightarrow> Threw e)"
  by (simp add: addInitialLaunchConfiguration_def Let_def targetsTemplate_iff
      split: option.splits)

text \<open>
  Claim C10. When the provider yields no list at all, the reconciler returns
  \<^verbatim>\<open>undefined\<close> and leaves the world as it was: the store receives no call, whatever its
  \<^verbatim>\<open>addDebugConfigurations\<close> would have done. When a list was provided the result is never
  \<^verbatim>\<open>undefined\<close>.
\<close>

theorem reconciler_without_configuration_list:
  "addInitialLaunchConfiguration areEqual (Returned None) addDebugConfigurations folderFsPath
     targetFsPath runtimeArg w = (Returned None, w) \<and>
   fst (addInitialLaunchConfiguration areEqual (Returned (Some configurations))
          addDebugConfigurations folderFsPath targetFsPath runtimeArg w) \<noteq> Returned None"
  by (simp add: addInitialLaunchConfiguration_def Let_def split: option.splits)

section \<open>Properties of the client builder\<close>

text \<open>
  Against claim C9 as stated: a caller that passes \<^verbatim>\<open>false\<close> for \<^verbatim>\<open>addUserAgent\<close> and
  supplies no user agent gets options without one.
\<close>

theorem client_builder_without_user_agent_counterexample:
  "createAndConfigureServiceClient sampleEnvironment (Returned (Some ())) id None None
     (Some False) =
   Returned \<lparr>credentials = Some (), region = None, customUserAgent = None,
             endpoint = Some ''http://localhost:4566''\<rparr>"
  by (simp add: createAndConfigureServiceClient_def sampleEnvironment_def emptyOptions_def)

text \<open>
  Claim C9, amended. Whenever credentials are at hand (supplied by the caller, or obtained
  from the context without an error), the builder constructs the client from options such
  that: if the caller supplied no user agent (none, or the empty string) and did not pass
  \<^verbatim>\<open>false\<close> for \<^verbatim>\<open>addUserAgent\<close>, the user agent is
  \<^verbatim>\<open>AWS-Toolkit-For-VSCode/<pluginVersion> <platformName>/<version>\<close>, the platform name
  being the application name with every white space character replaced by a hyphen; a
  user agent supplied by the caller is kept; and if the settings hold a non-empty
  endpoint, the options carry it.
\<close>

theorem client_builder_options:
  assumes "getCredentials = Returned c \<or>
           (\<exists>opts. awsServiceOpts = Some opts \<and> credentials opts \<noteq> None)"
  shows "\<exists>options.
           createAndConfigureServiceClient env getCredentials awsServiceFactory awsServiceOpts
             regionArg addUserAgentArg = Returned (awsServiceFactory options) \<and>
           (\<not> truthy (customUserAgent
                        (case awsServiceOpts of None \<Rightarrow> emptyOptions | Some opts \<Rightarrow> opts)) \<and>
            addUserAgentArg \<noteq> Some False \<longrightarrow>
              customUserAgent options =
                Some (''AWS-Toolkit-For-VSCode/'' @ pluginVersion env @ '' '' @
                      map (\<lambda>ch. if isWhiteSpace ch then CHR ''-'' else ch) (appName env) @
                      ''/'' @ editorVersion env)) \<and>
           (truthy (customUserAgent
                      (case awsServiceOpts of None \<Rightarrow> emptyOptions | Some opts \<Rightarrow> opts)) \<longrightarrow>
              customUserAgent options =
                customUserAgent (case awsServiceOpts of None \<Rightarrow> emptyOptions | Some opts \<Rightarrow> opts)) \<and>
           (truthy (endpointSetting env) \<longrightarrow> endpoint options = endpointSetting env)"
  using assms
  by (cases addUserAgentArg; cases awsServiceOpts)
     (auto simp: createAndConfigureServiceClient_def Let_def userAgent_def platformName_def
        emptyOptions_def)

theorem client_builder_options_witness:
  "\<exists>options.
     createAndConfigureServiceClient sampleEnvironment (Returned (Some ())) id None
       (Some ''us-east-1'') None = Returned options \<and>
     customUserAgent options = Some ''AWS-Toolkit-For-VSCode/1.17.0 Visual-Studio-Code/1.50.0'' \<and>
     endpoint options = Some ''http://localhost:4566''"
  using client_builder_options [where getCredentials = "Returned (Some ())" and c = "Some ()"
          and awsServiceOpts = None and env = sampleEnvironment and awsServiceFactory = id
          and regionArg = "Some ''us-east-1''" and addUserAgentArg = None]
  by (auto simp: sampleEnvironment_def emptyOptions_def isWhiteSpace_def)

section \<open>Properties of the exit code validator\<close>




text \<open>
  Claim C3. Whenever the validator fails, the log it leaves behind is the log it found
  followed by exactly one diagnostic record, which holds the expected code, the actual
  code, the truncated stdout and stderr, and the message of the launch error if there is
  one. The record is part of the state that the failure comes with: it is written before
  the failure is raised.
\<close>

theorem checkExit_logs_then_raises:
  assumes "fst (checkExit truncated result expected logged) = Inl err"
  shows "snd (checkExit truncated result expected logged) =
           logged @
           [\<lparr>loggedExpected = expected, loggedActual = exitCode result,
             loggedStdout = truncated (stdout result), loggedStderr = truncated (stderr result),
             loggedMessage = map_option message (launchError result)\<rparr>]"
  using assms by (auto simp: checkExit_def Let_def logDiagnostic_def split: if_splits)

theorem checkExit_logs_then_raises_witness:
  "fst (checkExit id unexpectedExit 456 []) =
     Inl \<lparr>expectedCode = 456, actualCode = Some 123, capturedStdout = ''stdout text'',
          capturedStderr = ''stderr text''\<rparr> \<and>
   snd (checkExit id unexpectedExit 456 []) =
     [\<lparr>loggedExpected = 456, loggedActual = Some 123, loggedStdout = ''stdout text'',
       loggedStderr = ''stderr text'', loggedMessage = Some ''bad result''\<rparr>]"
proof -
  have raised: "fst (checkExit id unexpectedExit 456 []) =
     Inl \<lparr>expectedCode = 456, actualCode = Some 123, capturedStdout = ''stdout text'',
          capturedStderr = ''stderr text''\<rparr>"
    by (simp add: checkExit_def unexpectedExit_def Let_def)
  from checkExit_logs_then_raises [OF raised] raised show ?thesis
    by (simp add: unexpectedExit_def)
qed

section \<open>The JSON text decodes to the mapping it was made from\<close>

lemma hexValue_hexDigit: "n < 16 \<Longrightarrow> hexValue (hexDigit n) = Some n"
  by (auto simp: hexValue_def hexDigit_def Let_def)

lemma consChar_Some: "consChar c (Some (s, rest)) = Some (c # s, rest)"
  by (simp add: consChar_def)

lemma hex4_control:
  assumes "(of_char c :: nat) < 32"
  shows "hex4 CHR ''0'' CHR ''0'' (hexDigit ((of_char c :: nat) div 16))
           (hexDigit ((of_char c :: nat) mod 16)) = Some (of_char c)"
proof -
  have z: "hexValue CHR ''0'' = Some 0" by (simp add: hexValue_def)
  have d: "(of_char c :: nat) div 16 < 16" using assms by simp
  have m: "(of_char c :: nat) mod 16 < 16" by simp
  show ?thesis
    by (simp add: hex4_def z hexValue_hexDigit [OF d] hexValue_hexDigit [OF m])
qed

lemma parseChars_quoteChar:
  "parseChars (quoteChar c @ rest) = consChar c (parseChars rest)"
proof -
  consider (special) "c \<in> {CHR 0x08, CHR 0x09, CHR 0x0A, CHR 0x0C, CHR 0x0D, CHR 0x22, CHR 0x5C}"
    | (control) "c \<notin> {CHR 0x08, CHR 0x09, CHR 0x0A, CHR 0x0C, CHR 0x0D, CHR 0x22, CHR 0x5C}"
                "(of_char c :: nat) < 32"
    | (plain) "c \<notin> {CHR 0x08, CHR 0x09, CHR 0x0A, CHR 0x0C, CHR 0x0D, CHR 0x22, CHR 0x5C}"
              "\<not> (of_char c :: nat) < 32"
    by blast
  then show ?thesis
  proof cases
    case special
    then show ?thesis
      by (auto simp: quoteChar_def unescapeChar_def)
  next
    case control
    have lt: "(of_char c :: nat) < 256" using control(2) by simp
    from control show ?thesis
      by (simp add: quoteChar_def hex4_control lt)
  next
    case plain
    then show ?thesis
      by (simp add: quoteChar_def)
  qed
qed

lemma parseChars_quoted:
  "parseChars (concat (map quoteChar s) @ CHR 0x22 # rest) = Some (s, rest)"
  by (induction s) (simp_all add: parseChars_quoteChar consChar_Some)


lemma skipWhitespace_token:
  "\<not> isJsonWhitespace c \<Longrightarrow> skipWhitespace (c # s) = c # s"
  by (simp add: skipWhitespace_def)

lemma skipWhitespace_Nil: "skipWhitespace [] = []"
  by (simp add: skipWhitespace_def)

lemma not_whitespace:
  "\<not> isJsonWhitespace (CHR 0x22)" "\<not> isJsonWhitespace CHR '':''"
  "\<not> isJsonWhitespace CHR '',''" "\<not> isJsonWhitespace CHR ''}''"
  "\<not> isJsonWhitespace CHR ''{''"
  by (simp_all add: isJsonWhitespace_def)

text \<open>One member, followed by a separator or the closing brace.\<close>

lemma parseMembers_comma:
  "parseMembers (Suc fuel) acc
     (quoteJSONString k @ '':'' @ quoteJSONString v @ '','' @ rest) =
   parseMembers fuel (setProperty k v acc) rest"
  by (simp add: quoteJSONString_def skipWhitespace_token not_whitespace parseChars_quoted)

lemma parseMembers_brace:
  "parseMembers (Suc fuel) acc (quoteJSONString k @ '':'' @ quoteJSONString v @ ''}'') =
   Some (setProperty k v acc)"
  by (simp add: quoteJSONString_def skipWhitespace_token not_whitespace parseChars_quoted
      skipWhitespace_Nil)

lemma parseMembers_serialized:
  "m \<noteq> [] \<Longrightarrow> length m \<le> fuel \<Longrightarrow>
   parseMembers fuel acc (serializeMembers m @ ''}'') =
     Some (fold (\<lambda>(k, v). setProperty k v) m acc)"
proof (induction m arbitrary: fuel acc rule: serializeMembers.induct)
  case 1
  then show ?case by simp
next
  case (2 k v)
  then obtain fuel' where f: "fuel = Suc fuel'" by (cases fuel) auto
  have "parseMembers (Suc fuel') acc (serializeMembers [(k, v)] @ ''}'') =
          Some (setProperty k v acc)"
    by (simp only: serializeMembers.simps append_assoc parseMembers_brace)
  then show ?case by (simp add: f)
next
  case (3 k v p m)
  then obtain fuel' where f: "fuel = Suc fuel'" by (cases fuel) auto
  with 3 have ih: "parseMembers fuel' (setProperty k v acc) (serializeMembers (p # m) @ ''}'') =
     Some (fold (\<lambda>(k, v). setProperty k v) (p # m) (setProperty k v acc))"
    by simp
  have "parseMembers (Suc fuel') acc (serializeMembers ((k, v) # p # m) @ ''}'') =
          parseMembers fuel' (setProperty k v acc) (serializeMembers (p # m) @ ''}'')"
    by (simp only: serializeMembers.simps append_assoc parseMembers_comma)
  with ih show ?case by (simp add: f)
qed

lemma setProperty_fresh:
  "k \<notin> fst ` set acc \<Longrightarrow> setProperty k v acc = acc @ [(k, v)]"
  by (induction acc) auto

lemma fold_setProperty_distinct:
  "distinct (map fst (acc @ m)) \<Longrightarrow> fold (\<lambda>(k, v). setProperty k v) m acc = acc @ m"
proof (induction m arbitrary: acc)
  case Nil
  then show ?case by simp
next
  case (Cons p m)
  obtain k v where p: "p = (k, v)" by (cases p)
  from Cons.prems p have fresh: "k \<notin> fst ` set acc" by auto
  from Cons.prems p have "distinct (map fst ((acc @ [(k, v)]) @ m))" by auto
  from Cons.IH [OF this] show ?case
    by (simp add: p setProperty_fresh [OF fresh])
qed

lemma length_serializeMembers: "length m \<le> length (serializeMembers m)"
  by (induction m rule: serializeMembers.induct) (simp_all add: quoteJSONString_def)

lemma serializeMembers_starts_with_quote:
  "m \<noteq> [] \<Longrightarrow> \<exists>t. serializeMembers m = CHR 0x22 # t"
  by (induction m rule: serializeMembers.induct) (simp_all add: quoteJSONString_def)

lemma JSON_parse_stringify:
  assumes "distinct (map fst m)"
  shows "JSON_parse (JSON_stringify m) = Some m"
proof (cases m)
  case Nil
  then show ?thesis
    by (simp add: JSON_parse_def JSON_stringify_def skipWhitespace_token not_whitespace
        skipWhitespace_Nil)
next
  case (Cons p ps)
  then have ne: "m \<noteq> []" by simp
  then obtain t where t: "serializeMembers m = CHR 0x22 # t"
    using serializeMembers_starts_with_quote by blast
  have fuel: "length m \<le> length (serializeMembers m @ ''}'')"
    using length_serializeMembers [of m] by simp
  have "JSON_parse (JSON_stringify m) =
          parseMembers (length (serializeMembers m @ ''}'')) [] (serializeMembers m @ ''}'')"
    by (simp add: JSON_parse_def JSON_stringify_def skipWhitespace_token not_whitespace t)
  also have "\<dots> = Some (fold (\<lambda>(k, v). setProperty k v) m [])"
    by (rule parseMembers_serialized [OF ne fuel])
  also have "\<dots> = Some m"
    using fold_setProperty_distinct [of "[]" m] assms by simp
  finally show ?thesis .
qed

section \<open>Properties of the argument builder\<close>

text \<open>
  Claim C6. For a Zip request without a template identifier no entry of the command line
  has the flag \<^verbatim>\<open>--app-template\<close>, and the argument vector does not contain that string
  unless the project name, the dependency manager or the runtime is itself that string.
  More generally, a flag whose value comes from an optional field of the request is
  among the entries only if that field is present.
\<close>

theorem init_omits_valueless_flags:
  "(packageType req = Zip \<and> template req = None \<longrightarrow>
      (\<forall>e \<in> set (initEntries getSamCliTemplateParameter req).
         flagOf e \<noteq> Some ''--app-template'') \<and>
      (projectName req \<noteq> ''--app-template'' \<and> dependencyManager req \<noteq> ''--app-template'' \<and>
       requestRuntime req \<noteq> Some ''--app-template'' \<longrightarrow>
         ''--app-template'' \<notin> set (buildArgs getSamCliTemplateParameter req))) \<and>
   (\<forall>e \<in> set (initEntries getSamCliTemplateParameter req).
      (flagOf e = Some ''--app-template'' \<longrightarrow> template req \<noteq> None) \<and>
      (flagOf e = Some ''--extra-context'' \<longrightarrow> extraTemplateContext req \<noteq> None) \<and>
      (flagOf e = Some ''--runtime'' \<longrightarrow> requestRuntime req \<noteq> None) \<and>
      (flagOf e = Some ''--base-image'' \<longrightarrow> baseImage req \<noteq> None))"
  by (cases "packageType req"; cases "template req"; cases "extraTemplateContext req";
      cases "requestRuntime req"; cases "baseImage req")
     (auto simp: initEntries_def buildArgs_def optionalFlag_def JSON_stringify_def)

theorem init_omits_valueless_flags_witness:
  "''--app-template'' \<notin> set (buildArgs id requestWithoutTemplate) \<and>
   filter (\<lambda>e. flagOf e = Some ''--app-template'') (initEntries id requestWithoutTemplate) = []"
  using init_omits_valueless_flags [of requestWithoutTemplate id]
  by (simp add: requestWithoutTemplate_def helloWorldRequest_def filter_empty_conv)

text \<open>
  Claim C7. For a request with an extra template context (an object, so its keys are
  distinct), exactly one entry of the command line has the flag \<^verbatim>\<open>--extra-context\<close>; its
  value is the JSON text of the context, and decoding that text gives a mapping deep-equal
  to the context. In the argument vector the flag and the text are the last two
  arguments, and the flag's string occurs nowhere before them unless another value of the
  request is itself that string.
\<close>

theorem init_extra_context_round_trip:
  assumes "extraTemplateContext req = Some m" and "distinct (map fst m)"
  shows "filter (\<lambda>e. flagOf e = Some ''--extra-context'')
           (initEntries getSamCliTemplateParameter req) =
           [FlagWithValue ''--extra-context'' (JSON_stringify m)] \<and>
         (\<exists>decoded. JSON_parse (JSON_stringify m) = Some decoded \<and> deepEqual decoded m) \<and>
         (\<exists>before. buildArgs getSamCliTemplateParameter req =
                     before @ [''--extra-context'', JSON_stringify m] \<and>
            (projectName req \<noteq> ''--extra-context'' \<and>
             dependencyManager req \<noteq> ''--extra-context'' \<and>
             requestRuntime req \<noteq> Some ''--extra-context'' \<and>
             baseImage req \<noteq> Some ''--extra-context'' \<and>
             map_option getSamCliTemplateParameter (template req) \<noteq> Some ''--extra-context'' \<longrightarrow>
               ''--extra-context'' \<notin> set before))"
proof (intro conjI)
  show "filter (\<lambda>e. flagOf e = Some ''--extra-context'')
           (initEntries getSamCliTemplateParameter req) =
           [FlagWithValue ''--extra-context'' (JSON_stringify m)]"
    using assms(1)
    by (cases "packageType req"; cases "template req"; cases "requestRuntime req";
        cases "baseImage req")
       (simp_all add: initEntries_def optionalFlag_def)
  show "\<exists>decoded. JSON_parse (JSON_stringify m) = Some decoded \<and> deepEqual decoded m"
    using JSON_parse_stringify [OF assms(2)] by (simp add: deepEqual_def)
  show "\<exists>before. buildArgs getSamCliTemplateParameter req =
                     before @ [''--extra-context'', JSON_stringify m] \<and>
            (projectName req \<noteq> ''--extra-context'' \<and>
             dependencyManager req \<noteq> ''--extra-context'' \<and>
             requestRuntime req \<noteq> Some ''--extra-context'' \<and>
             baseImage req \<noteq> Some ''--extra-context'' \<and>
             map_option getSamCliTemplateParameter (template req) \<noteq> Some ''--extra-context'' \<longrightarrow>
               ''--extra-context'' \<notin> set before)"
    using assms(1)
    by (cases "packageType req"; cases "template req"; cases "requestRuntime req";
        cases "baseImage req")
       (auto simp: initEntries_def buildArgs_def optionalFlag_def)
qed

theorem init_extra_context_round_trip_witness:
  "filter (\<lambda>e. flagOf e = Some ''--extra-context'') (initEntries id eventBridgeRequest) =
     [FlagWithValue ''--extra-context'' (JSON_stringify extraContent)] \<and>
   (\<exists>decoded. JSON_parse (JSON_stringify extraContent) = Some decoded \<and>
      deepEqual decoded extraContent)"
proof -
  have c: "extraTemplateContext eventBridgeRequest = Some extraContent"
    by (simp add: eventBridgeRequest_def)
  have d: "distinct (map fst extraContent)"
    by (simp add: extraContent_def)
  from init_extra_context_round_trip [OF c d, of id] show ?thesis by simp
qed

section \<open>Properties of the creation workflow\<close>

lemma preserves_andThen:
  "preserves obs m \<Longrightarrow> (\<And>a. preserves obs (k a)) \<Longrightarrow> preserves obs (andThen m k)"
  unfolding preserves_def andThen_def
proof
  fix s
  assume m: "\<forall>s. obs (snd (m s)) = obs s" and k: "\<And>a. \<forall>s. obs (snd (k a s)) = obs s"
  obtain c s' where ms: "m s = (c, s')" by (cases "m s")
  from m ms have "obs s' = obs s" by (metis snd_conv)
  with k ms show "obs (snd (case m s of (Next a, s') \<Rightarrow> k a s' | (Exit, s') \<Rightarrow> (Exit, s')
                              | (Raise e, s') \<Rightarrow> (Raise e, s'))) = obs s"
    by (cases c) simp_all
qed

lemma preserves_seq:
  "preserves obs m \<Longrightarrow> preserves obs n \<Longrightarrow> preserves obs (seq m n)"
  unfolding seq_def by (rule preserves_andThen)

lemma preserves_basic:
  "preserves obs skip" "preserves obs returnStatement" "preserves obs (throw e)"
  "preserves obs (await c)" "preserves obs (\<lambda>s. (r, s))"
  by (simp_all add: preserves_def skip_def returnStatement_def throw_def await_def
        split: completion.splits)

lemma preserves_modify:
  "(\<And>s. obs (f s) = obs s) \<Longrightarrow> preserves obs (modify f)"
  by (simp add: preserves_def modify_def)

lemma preserves_if:
  "preserves obs m \<Longrightarrow> preserves obs n \<Longrightarrow> preserves obs (if b then m else n)"
  by simp

lemma preserves_case_option:
  "preserves obs m \<Longrightarrow> (\<And>x. preserves obs (n x)) \<Longrightarrow>
   preserves obs (case x of None \<Rightarrow> m | Some y \<Rightarrow> n y)"
  by (cases x) simp_all

lemma preserves_telemetry_state:
  "preserves telemetry (notify n)" "preserves telemetry (setSamInitState st)"
  "preserves telemetry clearSamInitState"
  by (simp_all add: notify_def setSamInitState_def clearSamInitState_def preserves_modify)

lemma preserves_telemetry_notify_dependent:
  "preserves telemetry (\<lambda>s. notify (n s) s)"
  by (simp add: preserves_def notify_def modify_def)

lemma preserves_telemetry_reconciler:
  "preserves telemetry (callAddInitialLaunchConfiguration env folder target rt)"
  by (auto simp: preserves_def callAddInitialLaunchConfiguration_def
        split: option.splits prod.splits completion.splits)

lemma preserves_telemetry_getMainUri:
  "preserves telemetry (getMainUri env config)"
  unfolding getMainUri_def Let_def
  by (intro preserves_andThen preserves_seq preserves_basic preserves_if
        preserves_telemetry_state)

lemma preserves_telemetry_afterInit:
  "preserves telemetry (createNewSamApplication_afterInit env config rt)"
  unfolding createNewSamApplication_afterInit_def
  by (intro preserves_andThen preserves_seq preserves_basic preserves_if preserves_case_option
        preserves_telemetry_state preserves_telemetry_getMainUri preserves_modify
        preserves_telemetry_reconciler preserves_telemetry_notify_dependent) simp_all

lemma preserves_telemetry_create_try:
  "preserves telemetry (createNewSamApplication_try env)"
  unfolding createNewSamApplication_try_def
  by (intro preserves_andThen preserves_seq preserves_basic preserves_if preserves_case_option
        preserves_telemetry_state preserves_modify preserves_telemetry_afterInit) simp_all

lemma preserves_telemetry_create_catch:
  "preserves telemetry (createNewSamApplication_catch err)"
  unfolding createNewSamApplication_catch_def
  by (intro preserves_seq preserves_telemetry_state preserves_modify) simp_all


lemma preserves_telemetry_resume_try:
  "preserves telemetry (resumeCreateNewSamApp_try env st)"
  unfolding resumeCreateNewSamApp_try_def
  by (intro preserves_andThen preserves_seq preserves_basic preserves_case_option
        preserves_telemetry_state preserves_modify preserves_telemetry_reconciler) simp_all

lemma preserves_telemetry_resume_catch:
  "preserves telemetry (resumeCreateNewSamApp_catch err)"
  unfolding resumeCreateNewSamApp_catch_def
  by (intro preserves_seq preserves_telemetry_state preserves_modify) simp_all

lemma finalizer_state:
  "snd (case finalizer s2 of (Next u, s3) \<Rightarrow> (c2, s3) | (c3, s3) \<Rightarrow> (c3, s3)) =
   snd (finalizer s2)"
proof -
  obtain c3 s3 where f: "finalizer s2 = (c3, s3)" by (cases "finalizer s2")
  show ?thesis by (cases c3) (simp_all add: f)
qed

lemma tryCatchFinally_state:
  "\<exists>s2. snd (tryCatchFinally body handler finalizer s) = snd (finalizer s2) \<and>
         (s2 = snd (body s) \<or> (\<exists>e. s2 = snd (handler e (snd (body s)))))"
proof -
  obtain c1 s1 where b: "body s = (c1, s1)" by (cases "body s")
  show ?thesis
  proof (cases c1)
    case (Next u)
    have "snd (tryCatchFinally body handler finalizer s) = snd (finalizer s1)"
      by (simp add: tryCatchFinally_def b Next finalizer_state)
    with b show ?thesis by auto
  next
    case Exit
    have "snd (tryCatchFinally body handler finalizer s) = snd (finalizer s1)"
      by (simp add: tryCatchFinally_def b Exit finalizer_state)
    with b show ?thesis by auto
  next
    case (Raise e)
    obtain c2 s2 where h: "handler e s1 = (c2, s2)" by (cases "handler e s1")
    have "snd (tryCatchFinally body handler finalizer s) = snd (finalizer s2)"
      by (simp add: tryCatchFinally_def b Raise h finalizer_state)
    moreover have "s2 = snd (handler e (snd (body s)))"
      by (simp add: b h)
    ultimately show ?thesis by blast
  qed
qed

lemma tryCatchFinally_records:
  assumes body: "preserves telemetry body"
      and handler: "\<And>e. preserves telemetry (handler e)"
      and finalizer: "\<And>s'. telemetry (snd (finalizer s')) =
                           telemetry s' @ [event (snd (finalizer s'))]"
  shows "telemetry (snd (tryCatchFinally body handler finalizer s)) =
           telemetry s @ [event (snd (tryCatchFinally body handler finalizer s))]"
proof -
  obtain s2 where res: "snd (tryCatchFinally body handler finalizer s) = snd (finalizer s2)"
      and s2: "s2 = snd (body s) \<or> (\<exists>e. s2 = snd (handler e (snd (body s))))"
    using tryCatchFinally_state [of body handler finalizer s] by blast
  have kept: "telemetry (snd (body s)) = telemetry s"
    using body by (simp add: preserves_def)
  have "telemetry s2 = telemetry s"
  proof -
    from s2 consider "s2 = snd (body s)" | e where "s2 = snd (handler e (snd (body s)))"
      by blast
    then show ?thesis
    proof cases
      case 1
      with kept show ?thesis by simp
    next
      case 2
      have "telemetry (snd (handler e (snd (body s)))) = telemetry (snd (body s))"
        using handler [of e] by (simp add: preserves_def)
      with 2 kept show ?thesis by simp
    qed
  qed
  with finalizer [of s2] res show ?thesis by simp
qed

lemma create_finally_records:
  "telemetry (snd (createNewSamApplication_finally s)) =
     telemetry s @ [createEvent (snd (createNewSamApplication_finally s))]"
  by (simp add: createNewSamApplication_finally_def recordSamInit_def modify_def createEvent_def)

lemma resume_finally_records:
  "telemetry (snd (resumeCreateNewSamApp_finally st s)) =
     telemetry s @ [resumeEvent st (snd (resumeCreateNewSamApp_finally st s))]"
  by (simp add: resumeCreateNewSamApp_finally_def recordSamInit_def modify_def resumeEvent_def
      seq_def andThen_def clearSamInitState_def)

text \<open>
  Claim C8. Every run of \<^verbatim>\<open>createNewSamApplication\<close> and every run of
  \<^verbatim>\<open>resumeCreateNewSamApp\<close>, whatever the collaborators return or throw and however the
  run ends, adds exactly one outcome event to the events recorded before it. The event
  carries the package type, the result, the reason, the runtime and the tool version as
  the variables of the run hold them at the end.
\<close>

theorem workflow_records_one_event:
  "telemetry (snd (createNewSamApplication env s)) =
     telemetry s @ [createEvent (snd (createNewSamApplication env s))] \<and>
   telemetry (snd (resumeCreateNewSamApp env s)) =
     telemetry s @ [resumeEvent (reloadState s) (snd (resumeCreateNewSamApp env s))]"
proof
  show "telemetry (snd (createNewSamApplication env s)) =
          telemetry s @ [createEvent (snd (createNewSamApplication env s))]"
    unfolding createNewSamApplication_def
    using tryCatchFinally_records [OF preserves_telemetry_create_try
        preserves_telemetry_create_catch create_finally_records]
    by simp
  show "telemetry (snd (resumeCreateNewSamApp env s)) =
          telemetry s @ [resumeEvent (reloadState s) (snd (resumeCreateNewSamApp env s))]"
    unfolding resumeCreateNewSamApp_def Let_def
    using tryCatchFinally_records [where body = "resumeCreateNewSamApp_try env (reloadState s)"
        and handler = resumeCreateNewSamApp_catch
        and finalizer = "resumeCreateNewSamApp_finally (reloadState s)"
        and event = "resumeEvent (reloadState s)",
        OF preserves_telemetry_resume_try preserves_telemetry_resume_catch
           resume_finally_records]
    by simp
qed

lemmas run_defs =
  createNewSamApplication_def createNewSamApplication_try_def createNewSamApplication_catch_def
  createNewSamApplication_finally_def createNewSamApplication_afterInit_def getMainUri_def
  callAddInitialLaunchConfiguration_def addInitialLaunchConfiguration_def tryCatchFinally_def
  andThen_def seq_def skip_def modify_def returnStatement_def await_def recordSamInit_def
  setSamInitState_def clearSamInitState_def notify_def createEvent_def
  sampleWorkflowEnv_def failingInitEnv_def cancellingEnv_def sampleState_def sampleResponse_def
  sampleWorld_def sampleAreEqual_def templateConfiguration_def codeConfiguration_def
  targetsTemplate_def forEachStampRuntime_def stampRuntime_def emptyObject_def Let_def
  resumeCreateNewSamApp_def resumeCreateNewSamApp_try_def resumeCreateNewSamApp_catch_def
  resumeCreateNewSamApp_finally_def resumeEvent_def resumableState_def

theorem workflow_records_one_event_witness:
  "telemetry (snd (createNewSamApplication failingInitEnv sampleState)) =
     [\<lparr>eventLambdaPackageType = Some Zip, eventResult = Failed, eventReason = ErrorReason,
       eventRuntime = Some ''nodejs10.x'', eventVersion = Some ''1.0.0''\<rparr>] \<and>
   telemetry (snd (createNewSamApplication cancellingEnv sampleState)) =
     [\<lparr>eventLambdaPackageType = None, eventResult = Cancelled, eventReason = UserCancelled,
       eventRuntime = None, eventVersion = Some ''1.0.0''\<rparr>] \<and>
   telemetry (snd (resumeCreateNewSamApp sampleWorkflowEnv resumableState)) =
     [\<lparr>eventLambdaPackageType = Some Zip, eventResult = Succeeded, eventReason = Complete,
       eventRuntime = Some ''nodejs10.x'', eventVersion = Some ''1.0.0''\<rparr>]"
proof -
  have a: "createEvent (snd (createNewSamApplication failingInitEnv sampleState)) =
     \<lparr>eventLambdaPackageType = Some Zip, eventResult = Failed, eventReason = ErrorReason,
       eventRuntime = Some ''nodejs10.x'', eventVersion = Some ''1.0.0''\<rparr>"
    by (simp add: run_defs)
  have b: "createEvent (snd (createNewSamApplication cancellingEnv sampleState)) =
     \<lparr>eventLambdaPackageType = None, eventResult = Cancelled, eventReason = UserCancelled,
       eventRuntime = None, eventVersion = Some ''1.0.0''\<rparr>"
    by (simp add: run_defs)
  have c: "resumeEvent (reloadState resumableState)
             (snd (resumeCreateNewSamApp sampleWorkflowEnv resumableState)) =
     \<lparr>eventLambdaPackageType = Some Zip, eventResult = Succeeded, eventReason = Complete,
       eventRuntime = Some ''nodejs10.x'', eventVersion = Some ''1.0.0''\<rparr>"
    by (simp add: run_defs)
  have t: "telemetry sampleState = []" "telemetry resumableState = []"
    by (simp_all add: sampleState_def resumableState_def)
  from workflow_records_one_event [of failingInitEnv sampleState]
       workflow_records_one_event [of cancellingEnv sampleState]
       workflow_records_one_event [of sampleWorkflowEnv resumableState]
  show ?thesis by (simp add: a b c t)
qed

end
